theory Spec2Isabelle
  imports Complex_Main
begin

section \<open>The collector extension (extension.go)\<close>

text \<open>
  The extension keeps the latest snapshot (\<open>telemetryData\<close>, \<open>telemetryType\<close>) and the
  set of WebSocket connections. A byte slice is a \<open>string\<close> (a list of 8-bit characters)
  and a connection handle is a number. The keys of the Go map \<open>wsConnections\<close> are kept
  as a list: its order is the order in which \<open>range\<close> visits the map, which Go leaves
  open, so every statement below is about an arbitrary list.
\<close>

type_synonym bytes = string
type_synonym conn = nat

record sonifierExtension =
  telemetryData :: bytes
  telemetryType :: string
  wsConnections :: "conn list"

definition newSonifierExtension :: sonifierExtension where
  "newSonifierExtension =
     \<lparr>telemetryData = [], telemetryType = [], wsConnections = []\<rparr>"

text \<open>
  The handlers call encoding/json and the pdata OTLP codecs, which are libraries and not
  code of the extension; they are parameters of the model. \<open>json_Unmarshal\<close> is
  \<open>json.Unmarshal\<close> into a \<open>map[string]interface{}\<close>: \<open>None\<close> is an error,
  \<open>Some ks\<close> the keys of the decoded object. The three request types of the codecs are
  the type parameters.
\<close>

record ('t, 'm, 'l) libs =
  json_Valid :: "bytes \<Rightarrow> bool"
  json_Unmarshal :: "bytes \<Rightarrow> string list option"
  json_Marshal_string :: "bytes \<Rightarrow> bytes"
  json_Marshal_response :: "string \<Rightarrow> bytes \<Rightarrow> bytes option"
  ptrace_UnmarshalProto :: "bytes \<Rightarrow> 't option"
  ptrace_MarshalJSON :: "'t \<Rightarrow> bytes option"
  pmetric_UnmarshalProto :: "bytes \<Rightarrow> 'm option"
  pmetric_MarshalJSON :: "'m \<Rightarrow> bytes option"
  plog_UnmarshalProto :: "bytes \<Rightarrow> 'l option"
  plog_MarshalJSON :: "'l \<Rightarrow> bytes option"

text \<open>
  Lines 143 to 188 of \<open>handleTelemetry\<close>: the pair (\<open>dataType\<close>, \<open>jsonData\<close>).
  \<open>jsonData\<close> starts as the nil slice and stays nil when \<open>MarshalJSON\<close> fails.
\<close>

definition orNil :: "bytes option \<Rightarrow> bytes" where
  "orNil r = (case r of None \<Rightarrow> [] | Some jsonBytes \<Rightarrow> jsonBytes)"

definition handleTelemetry_detect :: "('t, 'm, 'l) libs \<Rightarrow> bytes \<Rightarrow> string \<times> bytes" where
  "handleTelemetry_detect L body =
     (if json_Valid L body then
        (case json_Unmarshal L body of
           Some jsonObj \<Rightarrow>
             (if ''resourceSpans'' \<in> set jsonObj then (''traces'', body)
              else if ''resourceMetrics'' \<in> set jsonObj then (''metrics'', body)
              else if ''resourceLogs'' \<in> set jsonObj then (''logs'', body)
              else (''unknown'', body))
         | None \<Rightarrow> (''unknown'', body))
      else
        (case ptrace_UnmarshalProto L body of
           Some tracesReq \<Rightarrow> (''traces'', orNil (ptrace_MarshalJSON L tracesReq))
         | None \<Rightarrow>
             (case pmetric_UnmarshalProto L body of
                Some metricsReq \<Rightarrow> (''metrics'', orNil (pmetric_MarshalJSON L metricsReq))
              | None \<Rightarrow>
                  (case plog_UnmarshalProto L body of
                     Some logsReq \<Rightarrow> (''logs'', orNil (plog_MarshalJSON L logsReq))
                   | None \<Rightarrow> (''unknown'', body)))))"

text \<open>
  The response struct built by both handlers (lines 200 to 215 and 239 to 257): the type
  and the payload, which is the stored data when it is valid JSON and the data encoded
  as a JSON string otherwise. The replies of the model carry this struct; its encoding
  on the wire, and a failure to write it, are not modelled.
\<close>

record response =
  Type :: string
  Payload :: bytes

definition rawPayload :: "('t, 'm, 'l) libs \<Rightarrow> bytes \<Rightarrow> bytes" where
  "rawPayload L data =
     (if json_Valid L data then data else json_Marshal_string L data)"

subsection \<open>broadcastToWebSockets\<close>

text \<open>
  What a broadcast does to the outside world, in order. \<open>WriteMessage\<close> is the
  transport: \<open>W conn message\<close> is true when the write returns no error.
\<close>

datatype wsEvent =
    WriteMessage conn bytes
  | LogError conn
  | Close conn

fun broadcastLoop ::
  "(conn \<Rightarrow> bytes \<Rightarrow> bool) \<Rightarrow> bytes \<Rightarrow> conn list \<Rightarrow> conn list \<Rightarrow> conn list \<times> wsEvent list" where
  "broadcastLoop W message [] conns = (conns, [])"
| "broadcastLoop W message (c # cs) conns =
     (if W c message then
        (let (conns', evs) = broadcastLoop W message cs conns
         in (conns', WriteMessage c message # evs))
      else
        (let (conns', evs) = broadcastLoop W message cs (removeAll c conns)
         in (conns', WriteMessage c message # LogError c # Close c # evs)))"

definition broadcastToWebSockets ::
  "(conn \<Rightarrow> bytes \<Rightarrow> bool) \<Rightarrow> bytes \<Rightarrow> sonifierExtension \<Rightarrow> sonifierExtension \<times> wsEvent list" where
  "broadcastToWebSockets W message s =
     (let (conns', evs) = broadcastLoop W message (wsConnections s) (wsConnections s)
      in (s\<lparr>wsConnections := conns'\<rparr>, evs))"

subsection \<open>handleTelemetry and handleGetTelemetryData\<close>

datatype readError = ReadError

record request =
  Method :: string
  Body :: "readError + bytes"

datatype httpReply =
    StatusOK
  | StatusNoContent
  | StatusMethodNotAllowed
  | StatusInternalServerError
  | JSONBody response

definition handleTelemetry ::
  "('t, 'm, 'l) libs \<Rightarrow> (conn \<Rightarrow> bytes \<Rightarrow> bool) \<Rightarrow> request \<Rightarrow> sonifierExtension
     \<Rightarrow> httpReply \<times> sonifierExtension \<times> wsEvent list" where
  "handleTelemetry L W r s =
     (if Method r \<noteq> ''POST'' then (StatusMethodNotAllowed, s, [])
      else
        (case Body r of
           Inl err \<Rightarrow> (StatusInternalServerError, s, [])
         | Inr body \<Rightarrow>
             (let (dataType, jsonData) = handleTelemetry_detect L body;
                  s1 = s\<lparr>telemetryData := (if length jsonData > 0 then jsonData else body),
                         telemetryType := dataType\<rparr>;
                  payload = rawPayload L (telemetryData s1)
              in (case json_Marshal_response L dataType payload of
                    Some messageBytes \<Rightarrow>
                      (let (s2, evs) = broadcastToWebSockets W messageBytes s1
                       in (StatusOK, s2, evs))
                  | None \<Rightarrow> (StatusOK, s1, [])))))"

definition handleGetTelemetryData ::
  "('t, 'm, 'l) libs \<Rightarrow> sonifierExtension \<Rightarrow> httpReply" where
  "handleGetTelemetryData L s =
     (if length (telemetryData s) = 0 then StatusNoContent
      else JSONBody \<lparr>Type = telemetryType s,
                      Payload = rawPayload L (telemetryData s)\<rparr>)"

section \<open>The analyzer (telemetry-analyzer.js)\<close>

text \<open>
  The payload of an envelope is an OTLP/JSON document. The fields the analyzer reads are
  the fields of the records below; an absent field is \<open>None\<close>. JavaScript numbers are
  modelled by \<open>real\<close> (counters by \<open>nat\<close>), so rounding, \<open>NaN\<close> and infinities of
  IEEE doubles are outside the model, and a payload whose fields have other JSON types
  than OTLP gives them is excluded by the types. The bookkeeping of span durations
  (\<open>averageLength\<close>, \<open>traceDurations\<close>, \<open>traceStartTimes\<close>) reads and writes nothing
  that the counters, the rates or \<open>traceIds\<close> depend on and is not modelled.
\<close>

record spanStatus =
  code :: "int option"

record span =
  traceId :: "string option"
  status :: "spanStatus option"

record scopeSpan =
  spans :: "span list option"

record resourceSpan =
  scopeSpans :: "scopeSpan list option"

record dataPoint =
  asDouble :: "real option"
  asInt :: "int option"

record points =
  dataPoints :: "dataPoint list option"

record metric =
  name :: string
  gauge :: "points option"
  sum' :: "points option"

record scopeMetric =
  metrics' :: "metric list option"

record resourceMetric =
  scopeMetrics :: "scopeMetric list option"

record logRecord =
  severityText :: "string option"
  severityNumber :: "int option"

record scopeLog =
  logRecords :: "logRecord list option"

record resourceLog =
  scopeLogs :: "scopeLog list option"

record rawTelemetry =
  resourceSpans :: "resourceSpan list option"
  resourceMetrics :: "resourceMetric list option"
  resourceLogs :: "resourceLog list option"

text \<open>
  \<open>xs?.forEach(f)\<close>: nothing when \<open>xs\<close> is absent, otherwise \<open>f\<close> on every element
  in order. The variables the callback assigns are the state that is threaded through.
\<close>

definition forEach :: "'a list option \<Rightarrow> ('a \<Rightarrow> 's \<Rightarrow> 's) \<Rightarrow> 's \<Rightarrow> 's" where
  "forEach xs f acc = (case xs of None \<Rightarrow> acc | Some ys \<Rightarrow> fold f ys acc)"

subsection \<open>analyzeTraces\<close>

record traceItem =
  id' :: string
  shortId :: string
  isError :: bool

record traceSummary =
  count :: nat
  errorRate :: real
  traceIds :: "traceItem list"

definition statusCodeIs2 :: "span \<Rightarrow> bool" where
  "statusCodeIs2 sp = (case status sp of None \<Rightarrow> False | Some st \<Rightarrow> code st = Some 2)"

definition spanBody :: "span \<Rightarrow> nat \<times> nat \<times> traceItem list \<Rightarrow> nat \<times> nat \<times> traceItem list" where
  "spanBody sp = (\<lambda>(totalTraces, errorTraces, ids).
     (totalTraces + 1,
      (if statusCodeIs2 sp then errorTraces + 1 else errorTraces),
      (case traceId sp of
         None \<Rightarrow> ids
       | Some t \<Rightarrow>
           if t \<noteq> [] then ids @ [\<lparr>id' = t, shortId = take 8 t, isError = statusCodeIs2 sp\<rparr>]
           else ids)))"

definition analyzeTraces :: "rawTelemetry \<Rightarrow> traceSummary" where
  "analyzeTraces rawTelemetry =
     (case resourceSpans rawTelemetry of
        None \<Rightarrow> \<lparr>count = 0, errorRate = 0, traceIds = []\<rparr>
      | Some rss \<Rightarrow>
          (let (totalTraces, errorTraces, ids) =
                 fold (\<lambda>resourceSpan. forEach (scopeSpans resourceSpan)
                        (\<lambda>scopeSpan. forEach (spans scopeSpan) spanBody))
                      rss (0, 0, [])
           in \<lparr>count = totalTraces,
               errorRate = (if totalTraces > 0 then real errorTraces / real totalTraces else 0),
               traceIds = ids\<rparr>))"

subsection \<open>analyzeMetrics\<close>

record metricSummary =
  cpu :: real
  memory :: real
  disk :: real
  critical :: bool

definition gaugePoint :: "dataPoint \<Rightarrow> real \<Rightarrow> real" where
  "gaugePoint point v =
     (case asDouble point of None \<Rightarrow> v | Some d \<Rightarrow> max v (d * 100))"

definition sumPoint :: "dataPoint \<Rightarrow> real \<Rightarrow> real" where
  "sumPoint point v =
     (case asInt point of None \<Rightarrow> v | Some i \<Rightarrow> max v (min 100 (real_of_int i / 100)))"

definition metricBody :: "metric \<Rightarrow> real \<times> real \<times> real \<Rightarrow> real \<times> real \<times> real" where
  "metricBody m = (\<lambda>(c, mem, d).
     (let c' = (case gauge m of
                  Some g \<Rightarrow> if name m = ''system.cpu.utilization''
                            then forEach (dataPoints g) gaugePoint c else c
                | None \<Rightarrow> c);
          mem' = (case gauge m of
                  Some g \<Rightarrow> if name m = ''system.memory.utilization''
                            then forEach (dataPoints g) gaugePoint mem else mem
                | None \<Rightarrow> mem);
          d' = (case sum' m of
                  Some sm \<Rightarrow> if name m = ''system.disk.io''
                             then forEach (dataPoints sm) sumPoint d else d
                | None \<Rightarrow> d)
      in (c', mem', d')))"

definition analyzeMetrics :: "rawTelemetry \<Rightarrow> metricSummary" where
  "analyzeMetrics rawTelemetry =
     (case resourceMetrics rawTelemetry of
        None \<Rightarrow> \<lparr>cpu = 0, memory = 0, disk = 0, critical = False\<rparr>
      | Some rms \<Rightarrow>
          (let (c, mem, d) =
                 fold (\<lambda>resourceMetric. forEach (scopeMetrics resourceMetric)
                        (\<lambda>scopeMetric. forEach (metrics' scopeMetric) metricBody))
                      rms (0, 0, 0)
           in \<lparr>cpu = c, memory = mem, disk = d,
               critical = (c > 80 \<or> mem > 80 \<or> d > 80)\<rparr>))"

subsection \<open>analyzeLogs\<close>

record logSummary =
  logErrorRate :: real
  totalCount :: nat

definition isErrorLog :: "logRecord \<Rightarrow> bool" where
  "isErrorLog lg =
     (severityText lg = Some ''ERROR'' \<or> severityText lg = Some ''FATAL'' \<or>
      (case severityNumber lg of None \<Rightarrow> False | Some n \<Rightarrow> n \<noteq> 0 \<and> n \<ge> 17))"

definition logBody :: "logRecord \<Rightarrow> nat \<times> nat \<Rightarrow> nat \<times> nat" where
  "logBody lg = (\<lambda>(totalLogs, errorLogs).
     (totalLogs + 1, (if isErrorLog lg then errorLogs + 1 else errorLogs)))"

definition analyzeLogs :: "rawTelemetry \<Rightarrow> logSummary" where
  "analyzeLogs rawTelemetry =
     (case resourceLogs rawTelemetry of
        None \<Rightarrow> \<lparr>logErrorRate = 0, totalCount = 0\<rparr>
      | Some rls \<Rightarrow>
          (let (totalLogs, errorLogs) =
                 fold (\<lambda>resourceLog. forEach (scopeLogs resourceLog)
                        (\<lambda>scopeLog. forEach (logRecords scopeLog) logBody))
                      rls (0, 0)
           in \<lparr>logErrorRate = (if totalLogs > 0 then real errorLogs / real totalLogs else 0),
               totalCount = totalLogs\<rparr>))"

record analyzedTelemetry =
  traces :: traceSummary
  metrics :: metricSummary
  logs :: logSummary

definition analyzeTelemetry :: "rawTelemetry \<Rightarrow> analyzedTelemetry" where
  "analyzeTelemetry rawTelemetry =
     \<lparr>traces = analyzeTraces rawTelemetry,
      metrics = analyzeMetrics rawTelemetry,
      logs = analyzeLogs rawTelemetry\<rparr>"

section \<open>The visualizer (script.js)\<close>

text \<open>
  The fields of \<open>TelemetryVisualizer\<close> that the playback queue, the rate controller,
  the smoother and the quantizer use. What the methods do to the page and to the timer
  is a list of events: a sky transition, an error bloom, a raindrop handed to
  \<open>createRaindrop\<close>, a \<open>setTimeout\<close> of the playback loop with its delay in
  milliseconds, and the percentage written to the activity display.
\<close>

record visualizer =
  currentActivity :: real
  traceQueue :: "traceItem list"
  basePlaybackRate :: nat
  currentPlaybackRate :: nat
  lastTraceCount :: nat
  targetMetricLevel :: real
  currentSkyId :: string

datatype uiEvent =
    SkyTransition real string
  | ActivityValue int
  | ErrorBloom
  | Raindrop traceItem
  | SetTimeout nat

definition newTelemetryVisualizer :: visualizer where
  "newTelemetryVisualizer =
     \<lparr>currentActivity = 0, traceQueue = [], basePlaybackRate = 20,
      currentPlaybackRate = 20, lastTraceCount = 0, targetMetricLevel = 0,
      currentSkyId = ''sky-low''\<rparr>"

definition targetSkyIdOf :: "real \<Rightarrow> string" where
  "targetSkyIdOf targetLevel =
     (if targetLevel \<le> 0.1 then ''sky-low''
      else if targetLevel \<le> 0.3 then ''sky-medium''
      else if targetLevel \<le> 0.6 then ''sky-high''
      else ''sky-stress'')"

definition updateSkyGradient :: "visualizer \<Rightarrow> real \<Rightarrow> visualizer \<times> uiEvent list" where
  "updateSkyGradient s targetLevel =
     (let targetSkyId = targetSkyIdOf targetLevel
      in if targetSkyId \<noteq> currentSkyId s
         then (s\<lparr>currentSkyId := targetSkyId\<rparr>, [SkyTransition targetLevel targetSkyId])
         else (s, []))"

definition adjustPlaybackRate :: "visualizer \<Rightarrow> visualizer" where
  "adjustPlaybackRate s =
     (let queueLength = length (traceQueue s)
      in if queueLength > 200 then s\<lparr>currentPlaybackRate := 1\<rparr>
         else if queueLength > 100 then s\<lparr>currentPlaybackRate := 2\<rparr>
         else if queueLength > 50 then s\<lparr>currentPlaybackRate := 5\<rparr>
         else if queueLength > 20 then s\<lparr>currentPlaybackRate := 10\<rparr>
         else if queueLength < 5 then s\<lparr>currentPlaybackRate := basePlaybackRate s * 2\<rparr>
         else s\<lparr>currentPlaybackRate := basePlaybackRate s\<rparr>)"

definition metricActivityOf :: "analyzedTelemetry \<Rightarrow> real" where
  "metricActivityOf telemetry =
     max (max (cpu (metrics telemetry) / 100) (memory (metrics telemetry) / 100))
         (disk (metrics telemetry) / 100)"

definition newActivityOf :: "analyzedTelemetry \<Rightarrow> real" where
  "newActivityOf telemetry =
     (let traceActivity = min (real (count (traces telemetry)) / 10) 1;
          metricActivity = metricActivityOf telemetry;
          logActivity = min (real (totalCount (logs telemetry)) / 10) 1
      in max (max traceActivity metricActivity) logActivity)"

definition detectedLevelOf :: "real \<Rightarrow> real" where
  "detectedLevelOf metricActivity =
     (if metricActivity < 0.2 then 0.1
      else if metricActivity < 0.45 then 0.3
      else if metricActivity < 0.8 then 0.6
      else 1.0)"

definition updateVisualization ::
  "visualizer \<Rightarrow> analyzedTelemetry \<Rightarrow> string \<Rightarrow> visualizer \<times> uiEvent list" where
  "updateVisualization s telemetry dataType =
     (let metricActivity = metricActivityOf telemetry;
          newActivity = newActivityOf telemetry;
          s1 = s\<lparr>currentActivity := max (max (currentActivity s * 0.95) newActivity) 0.1\<rparr>;
          (s2, skyEvs) =
            (if dataType = ''metrics'' \<and> metricActivity > 0 then
               (let detectedLevel = detectedLevelOf metricActivity
                in if detectedLevel \<noteq> targetMetricLevel s1
                   then updateSkyGradient (s1\<lparr>targetMetricLevel := detectedLevel\<rparr>) detectedLevel
                   else (s1, []))
             else (s1, []));
          shown = [ActivityValue \<lfloor>currentActivity s2 * 100 + 1 / 2\<rfloor>];
          s3 = (if dataType = ''traces'' \<and> count (traces telemetry) > 0 then
                  adjustPlaybackRate
                    (s2\<lparr>traceQueue := traceQueue s2 @ traceIds (traces telemetry),
                        lastTraceCount := count (traces telemetry)\<rparr>)
                else s2);
          bloom = (if errorRate (traces telemetry) > 0.3 \<or> logErrorRate (logs telemetry) > 0.5
                   then [ErrorBloom] else [])
      in (s3, skyEvs @ shown @ bloom))"

text \<open>
  \<open>playNextTrace\<close>, the callback of \<open>startConstantRain\<close>: one tick of the playback
  loop. It reschedules itself with \<open>this.currentPlaybackRate\<close>.
\<close>

definition playNextTrace :: "visualizer \<Rightarrow> visualizer \<times> uiEvent list" where
  "playNextTrace s =
     (case traceQueue s of
        [] \<Rightarrow> (s, [SetTimeout (currentPlaybackRate s)])
      | trace # rest \<Rightarrow>
          (s\<lparr>traceQueue := rest\<rparr>, [Raindrop trace, SetTimeout (currentPlaybackRate s)]))"

text \<open>
  The \<open>onmessage\<close> handler of the WebSocket (script.js, lines 53 to 63). The payload
  of the parsed envelope is tested for truthiness first, and the analysis and the update
  run inside a \<open>try\<close> whose \<open>catch\<close> only logs. So an envelope has one of three
  outcomes, and the payload is modelled by the outcome it has:
  \<^item> \<open>Falsy\<close> is a payload that is \<open>null\<close>, \<open>false\<close>, \<open>0\<close> or the empty
    string; the guard skips it.
  \<^item> \<open>Throwing\<close> is a truthy payload on which \<open>analyzeTelemetry\<close> throws a
    \<open>TypeError\<close>: one of \<open>resourceSpans\<close>, \<open>resourceMetrics\<close>,
    \<open>resourceLogs\<close> is truthy but not an array (as in \<open>{"resourceSpans":1}\<close>), an
    array has a \<open>null\<close> element, or a truthy \<open>traceId\<close> is not a string. The
    exception leaves \<open>updateVisualization\<close> uncalled and is swallowed by the
    \<open>catch\<close>.
  \<^item> \<open>Document\<close> is a truthy payload that the analyzer processes to the end,
    read through the fields of \<open>rawTelemetry\<close> (all absent for a payload that is
    not an object). As in the analyzer, its numeric fields hold numbers.

  The extension forwards a request body that is valid JSON unchanged, so it sends
  payloads of all three sorts when it receives them.
\<close>

datatype jsPayload =
    Falsy
  | Throwing
  | Document rawTelemetry

definition onmessage :: "visualizer \<Rightarrow> string \<Rightarrow> jsPayload \<Rightarrow> visualizer \<times> uiEvent list" where
  "onmessage s dataType payload =
     (case payload of
        Falsy \<Rightarrow> (s, [])
      | Throwing \<Rightarrow> (s, [])
      | Document rawTelemetry \<Rightarrow>
          updateVisualization s (analyzeTelemetry rawTelemetry) dataType)"

text \<open>
  The two things that happen to a visualizer: an envelope arrives, or the playback loop
  ticks. \<open>run\<close> is a history of them, with the events of each step in order.
\<close>

datatype input =
    Message string jsPayload
  | Tick

fun step :: "visualizer \<Rightarrow> input \<Rightarrow> visualizer \<times> uiEvent list" where
  "step s (Message dataType payload) = onmessage s dataType payload"
| "step s Tick = playNextTrace s"

fun run :: "visualizer \<Rightarrow> input list \<Rightarrow> visualizer \<times> uiEvent list" where
  "run s [] = (s, [])"
| "run s (i # is) =
     (let (s1, evs1) = step s i; (s2, evs2) = run s1 is in (s2, evs1 @ evs2))"

section \<open>Notions used to state the properties\<close>

subsection \<open>Requests served in sequence, and what a broadcast did\<close>

datatype httpRequest =
    Ingest request
  | Pull

fun serve ::
  "('t, 'm, 'l) libs \<Rightarrow> (conn \<Rightarrow> bytes \<Rightarrow> bool) \<Rightarrow> sonifierExtension \<Rightarrow> httpRequest list
     \<Rightarrow> httpReply list \<times> sonifierExtension" where
  "serve L W s [] = ([], s)"
| "serve L W s (Ingest r # rs) =
     (let (reply, s1, evs) = handleTelemetry L W r s;
          (replies, s2) = serve L W s1 rs
      in (reply # replies, s2))"
| "serve L W s (Pull # rs) =
     (let (replies, s2) = serve L W s rs
      in (handleGetTelemetryData L s # replies, s2))"

fun attempts :: "wsEvent list \<Rightarrow> (conn \<times> bytes) list" where
  "attempts [] = []"
| "attempts (WriteMessage c m # evs) = (c, m) # attempts evs"
| "attempts (e # evs) = attempts evs"

fun closed :: "wsEvent list \<Rightarrow> conn list" where
  "closed [] = []"
| "closed (Close c # evs) = c # closed evs"
| "closed (e # evs) = closed evs"

subsection \<open>The spans, metrics and log records of a payload, in document order\<close>

definition optList :: "'a list option \<Rightarrow> 'a list" where
  "optList xs = (case xs of None \<Rightarrow> [] | Some ys \<Rightarrow> ys)"

definition allSpans :: "rawTelemetry \<Rightarrow> span list" where
  "allSpans raw =
     concat (map (\<lambda>rs. concat (map (\<lambda>ss. optList (spans ss)) (optList (scopeSpans rs))))
                 (optList (resourceSpans raw)))"

definition allLogRecords :: "rawTelemetry \<Rightarrow> logRecord list" where
  "allLogRecords raw =
     concat (map (\<lambda>rl. concat (map (\<lambda>sl. optList (logRecords sl)) (optList (scopeLogs rl))))
                 (optList (resourceLogs raw)))"

definition allMetrics :: "rawTelemetry \<Rightarrow> metric list" where
  "allMetrics raw =
     concat (map (\<lambda>rm. concat (map (\<lambda>sm. optList (metrics' sm)) (optList (scopeMetrics rm))))
                 (optList (resourceMetrics raw)))"

text \<open>
  The \<open>asDouble\<close> values of the gauge points of the metrics with a given name, and
  the \<open>asInt\<close> values of their sum points.
\<close>

definition gaugeValuesOf :: "string \<Rightarrow> metric list \<Rightarrow> real list" where
  "gaugeValuesOf nm ms =
     concat (map (\<lambda>m. if name m = nm
                       then (case gauge m of None \<Rightarrow> []
                             | Some g \<Rightarrow> List.map_filter asDouble (optList (dataPoints g)))
                       else []) ms)"

definition sumValuesOf :: "string \<Rightarrow> metric list \<Rightarrow> int list" where
  "sumValuesOf nm ms =
     concat (map (\<lambda>m. if name m = nm
                       then (case sum' m of None \<Rightarrow> []
                             | Some g \<Rightarrow> List.map_filter asInt (optList (dataPoints g)))
                       else []) ms)"

definition itemsOf :: "span list \<Rightarrow> traceItem list" where
  "itemsOf sps = List.map_filter
     (\<lambda>sp. case traceId sp of
              None \<Rightarrow> None
            | Some t \<Rightarrow> if t \<noteq> []
                        then Some \<lparr>id' = t, shortId = take 8 t, isError = statusCodeIs2 sp\<rparr>
                        else None) sps"

subsection \<open>Sky transitions of an event list, and the invariant of the quantizer\<close>

fun skyTransitions :: "uiEvent list \<Rightarrow> (real \<times> string) list" where
  "skyTransitions [] = []"
| "skyTransitions (SkyTransition level skyId # evs) = (level, skyId) # skyTransitions evs"
| "skyTransitions (e # evs) = skyTransitions evs"

definition skyInv :: "visualizer \<Rightarrow> bool" where
  "skyInv s = (currentSkyId s = targetSkyIdOf (targetMetricLevel s))"

subsection \<open>Concrete inputs\<close>

text \<open>
  A small stand-in for the libraries: the only valid JSON text is the empty object, and
  the only message the three binary codecs decode is the empty one, which all three
  decode (as protobuf does) and print as the empty object.
\<close>

definition sampleLibs :: "(unit, unit, unit) libs" where
  "sampleLibs =
     \<lparr>json_Valid = (\<lambda>b. b = ''{}''),
      json_Unmarshal = (\<lambda>b. if b = ''{}'' then Some [] else None),
      json_Marshal_string = (\<lambda>b. ''str:'' @ b),
      json_Marshal_response = (\<lambda>t p. Some (t @ '':'' @ p)),
      ptrace_UnmarshalProto = (\<lambda>b. if b = [] then Some () else None),
      ptrace_MarshalJSON = (\<lambda>t. Some ''{}''),
      pmetric_UnmarshalProto = (\<lambda>b. if b = [] then Some () else None),
      pmetric_MarshalJSON = (\<lambda>t. Some ''{}''),
      plog_UnmarshalProto = (\<lambda>b. if b = [] then Some () else None),
      plog_MarshalJSON = (\<lambda>t. Some ''{}'')\<rparr>"

definition post :: "bytes \<Rightarrow> request" where
  "post body = \<lparr>Method = ''POST'', Body = Inr body\<rparr>"

definition okSpan :: span where
  "okSpan = \<lparr>traceId = Some ''5b8efff798038103d269b633813fc60c'',
             status = Some \<lparr>code = Some 1\<rparr>\<rparr>"

definition errorSpan :: span where
  "errorSpan = \<lparr>traceId = Some ''7bba9f33312b3dbb8b2c2c62bb7abe2d'',
                status = Some \<lparr>code = Some 2\<rparr>\<rparr>"

definition okItem :: traceItem where
  "okItem = \<lparr>id' = ''5b8efff798038103d269b633813fc60c'', shortId = ''5b8efff7'',
             isError = False\<rparr>"

definition spansPayload :: "span list \<Rightarrow> rawTelemetry" where
  "spansPayload sps =
     \<lparr>resourceSpans = Some [\<lparr>scopeSpans = Some [\<lparr>spans = Some sps\<rparr>]\<rparr>],
      resourceMetrics = None, resourceLogs = None\<rparr>"

definition logsPayload :: "logRecord list \<Rightarrow> rawTelemetry" where
  "logsPayload ls =
     \<lparr>resourceSpans = None, resourceMetrics = None,
      resourceLogs = Some [\<lparr>scopeLogs = Some [\<lparr>logRecords = Some ls\<rparr>]\<rparr>]\<rparr>"

definition errorLog :: logRecord where
  "errorLog = \<lparr>severityText = Some ''ERROR'', severityNumber = Some 17\<rparr>"

definition infoLog :: logRecord where
  "infoLog = \<lparr>severityText = Some ''INFO'', severityNumber = Some 9\<rparr>"

definition gaugeMetric :: "string \<Rightarrow> real \<Rightarrow> metric" where
  "gaugeMetric nm v =
     \<lparr>name = nm, gauge = Some \<lparr>dataPoints = Some [\<lparr>asDouble = Some v, asInt = None\<rparr>]\<rparr>,
      sum' = None\<rparr>"

definition sumMetric :: "string \<Rightarrow> int \<Rightarrow> metric" where
  "sumMetric nm i =
     \<lparr>name = nm, gauge = None,
      sum' = Some \<lparr>dataPoints = Some [\<lparr>asDouble = None, asInt = Some i\<rparr>]\<rparr>\<rparr>"

definition metricsPayload :: "metric list \<Rightarrow> rawTelemetry" where
  "metricsPayload ms =
     \<lparr>resourceSpans = None,
      resourceMetrics = Some [\<lparr>scopeMetrics = Some [\<lparr>metrics' = Some ms\<rparr>]\<rparr>],
      resourceLogs = None\<rparr>"

text \<open>A fresh visualizer whose queue holds \<open>d\<close> items.\<close>

definition queued :: "nat \<Rightarrow> visualizer" where
  "queued d = newTelemetryVisualizer\<lparr>traceQueue := replicate d okItem\<rparr>"

text \<open>
  A fresh visualizer that received one envelope with six traces and then ticked twice.
\<close>

definition afterTwoTicks :: visualizer where
  "afterTwoTicks =
     fst (run newTelemetryVisualizer
            [Message ''traces'' (Document (spansPayload (replicate 6 okSpan))), Tick, Tick])"

section \<open>Ingestion, snapshot and broadcast\<close>

subsection \<open>Auxiliary facts\<close>

lemma broadcastLoop_eq:
  "broadcastLoop W m cs conns =
     (filter (\<lambda>c. c \<notin> set cs \<or> W c m) conns,
      concat (map (\<lambda>c. if W c m then [WriteMessage c m]
                        else [WriteMessage c m, LogError c, Close c]) cs))"
proof (induction cs arbitrary: conns)
  case Nil
  show ?case by simp
next
  case (Cons c cs)
  show ?case
    by (auto simp: Cons.IH removeAll_filter_not_eq filter_filter intro!: filter_cong)
qed

lemma attempts_concat:
  "attempts (concat (map (\<lambda>c. if W c m then [WriteMessage c m]
                               else [WriteMessage c m, LogError c, Close c]) cs))
     = map (\<lambda>c. (c, m)) cs"
  by (induction cs) simp_all

lemma closed_concat:
  "closed (concat (map (\<lambda>c. if W c m then [WriteMessage c m]
                             else [WriteMessage c m, LogError c, Close c]) cs))
     = filter (\<lambda>c. \<not> W c m) cs"
  by (induction cs) simp_all

lemma broadcast_eq:
  "broadcastToWebSockets W m s =
     (s\<lparr>wsConnections := filter (\<lambda>c. W c m) (wsConnections s)\<rparr>,
      concat (map (\<lambda>c. if W c m then [WriteMessage c m]
                        else [WriteMessage c m, LogError c, Close c]) (wsConnections s)))"
proof -
  have "filter (\<lambda>c. c \<notin> set (wsConnections s) \<or> W c m) (wsConnections s)
        = filter (\<lambda>c. W c m) (wsConnections s)"
    by (rule filter_cong) auto
  then show ?thesis
    by (simp add: broadcastToWebSockets_def broadcastLoop_eq)
qed

lemma handleTelemetry_post:
  assumes "Method r = ''POST''" and "Body r = Inr body"
  shows "fst (handleTelemetry L W r s) = StatusOK"
    and "telemetryType (fst (snd (handleTelemetry L W r s))) = fst (handleTelemetry_detect L body)"
    and "telemetryData (fst (snd (handleTelemetry L W r s))) =
           (if snd (handleTelemetry_detect L body) \<noteq> [] then snd (handleTelemetry_detect L body)
            else body)"
  using assms
  by (simp_all add: handleTelemetry_def broadcast_eq Let_def split_beta split: option.splits)

lemma stored_nonempty:
  assumes "Method r = ''POST''" and "Body r = Inr body" and "body \<noteq> []"
  shows "telemetryData (fst (snd (handleTelemetry L W r s))) \<noteq> []"
  using assms(3) by (simp add: handleTelemetry_post(3)[OF assms(1,2)])

lemma detect_kinds:
  "fst (handleTelemetry_detect L body) \<in> {''traces'', ''metrics'', ''logs'', ''unknown''}"
  by (simp add: handleTelemetry_detect_def split: option.splits)

lemma serve_pulls:
  "serve L W s (replicate n Pull) = (replicate n (handleGetTelemetryData L s), s)"
  by (induction n) simp_all

lemma serve_append:
  "serve L W s (xs @ ys) =
     (fst (serve L W s xs) @ fst (serve L W (snd (serve L W s xs)) ys),
      snd (serve L W (snd (serve L W s xs)) ys))"
proof (induction xs arbitrary: s)
  case Nil
  show ?case by simp
next
  case (Cons x xs)
  show ?case by (cases x) (simp_all add: Cons.IH split_beta)
qed

lemma sample_post: "Method (post body) = ''POST''" "Body (post body) = Inr body"
  by (simp_all add: post_def)

lemma sampleLibs_detect:
  "handleTelemetry_detect sampleLibs ''{}'' = (''unknown'', ''{}'')"
  "handleTelemetry_detect sampleLibs ''junk'' = (''unknown'', ''junk'')"
  "handleTelemetry_detect sampleLibs [] = (''traces'', ''{}'')"
  by (simp_all add: handleTelemetry_detect_def sampleLibs_def orNil_def)

subsection \<open>The claims\<close>

text \<open>
  Claim C1. A POST request whose body was read always gets the reply 200, whatever the
  bytes are, and stores a type among traces, metrics, logs and unknown. A body that is
  valid JSON is stored unchanged and typed by the marker keys of its top-level object
  (unknown when it has none of them or is not an object). Any other body is tried
  against the binary decoders in the order traces, metrics, logs, and the first that
  decodes gives the type; when none decodes the type is unknown and the stored payload
  is the raw body.
\<close>

theorem handleTelemetry_total:
  assumes "Method r = ''POST''" and "Body r = Inr body"
  shows "fst (handleTelemetry L W r s) = StatusOK \<and>
     telemetryType (fst (snd (handleTelemetry L W r s)))
        \<in> {''traces'', ''metrics'', ''logs'', ''unknown''} \<and>
     (json_Valid L body \<longrightarrow>
        telemetryData (fst (snd (handleTelemetry L W r s))) = body \<and>
        telemetryType (fst (snd (handleTelemetry L W r s))) =
          (case json_Unmarshal L body of
             None \<Rightarrow> ''unknown''
           | Some keys \<Rightarrow>
               if ''resourceSpans'' \<in> set keys then ''traces''
               else if ''resourceMetrics'' \<in> set keys then ''metrics''
               else if ''resourceLogs'' \<in> set keys then ''logs''
               else ''unknown'')) \<and>
     (\<not> json_Valid L body \<longrightarrow>
        telemetryType (fst (snd (handleTelemetry L W r s))) =
          (if ptrace_UnmarshalProto L body \<noteq> None then ''traces''
           else if pmetric_UnmarshalProto L body \<noteq> None then ''metrics''
           else if plog_UnmarshalProto L body \<noteq> None then ''logs''
           else ''unknown'')) \<and>
     (\<not> json_Valid L body \<and> ptrace_UnmarshalProto L body = None \<and>
      pmetric_UnmarshalProto L body = None \<and> plog_UnmarshalProto L body = None \<longrightarrow>
        telemetryType (fst (snd (handleTelemetry L W r s))) = ''unknown'' \<and>
        telemetryData (fst (snd (handleTelemetry L W r s))) = body)"
proof -
  note stored = handleTelemetry_post[OF assms, of L W s]
  have valid: "json_Valid L body \<Longrightarrow> handleTelemetry_detect L body =
      ((case json_Unmarshal L body of
             None \<Rightarrow> ''unknown''
           | Some keys \<Rightarrow>
               if ''resourceSpans'' \<in> set keys then ''traces''
               else if ''resourceMetrics'' \<in> set keys then ''metrics''
               else if ''resourceLogs'' \<in> set keys then ''logs''
               else ''unknown''), body)"
    by (simp add: handleTelemetry_detect_def split: option.splits)
  have binary: "\<not> json_Valid L body \<Longrightarrow> fst (handleTelemetry_detect L body) =
          (if ptrace_UnmarshalProto L body \<noteq> None then ''traces''
           else if pmetric_UnmarshalProto L body \<noteq> None then ''metrics''
           else if plog_UnmarshalProto L body \<noteq> None then ''logs''
           else ''unknown'')"
    by (simp add: handleTelemetry_detect_def split: option.splits)
  have none: "\<not> json_Valid L body \<Longrightarrow> ptrace_UnmarshalProto L body = None \<Longrightarrow>
      pmetric_UnmarshalProto L body = None \<Longrightarrow> plog_UnmarshalProto L body = None \<Longrightarrow>
      handleTelemetry_detect L body = (''unknown'', body)"
    by (simp add: handleTelemetry_detect_def)
  show ?thesis
    using stored detect_kinds[of L body] valid binary none by auto
qed

theorem handleTelemetry_total_witness:
  "Method (post ''{}'') = ''POST'' \<and> Body (post ''{}'') = Inr ''{}'' \<and>
   json_Valid sampleLibs ''{}'' \<and>
   fst (handleTelemetry sampleLibs (\<lambda>c m. True) (post ''{}'') newSonifierExtension) = StatusOK \<and>
   telemetryData (fst (snd (handleTelemetry sampleLibs (\<lambda>c m. True) (post ''{}'')
       newSonifierExtension))) = ''{}'' \<and>
   Method (post ''junk'') = ''POST'' \<and> Body (post ''junk'') = Inr ''junk'' \<and>
   \<not> json_Valid sampleLibs ''junk'' \<and>
   ptrace_UnmarshalProto sampleLibs ''junk'' = None \<and>
   pmetric_UnmarshalProto sampleLibs ''junk'' = None \<and>
   plog_UnmarshalProto sampleLibs ''junk'' = None \<and>
   telemetryType (fst (snd (handleTelemetry sampleLibs (\<lambda>c m. True) (post ''junk'')
       newSonifierExtension))) = ''unknown'' \<and>
   telemetryData (fst (snd (handleTelemetry sampleLibs (\<lambda>c m. True) (post ''junk'')
       newSonifierExtension))) = ''junk''"
  using handleTelemetry_total[OF sample_post[of "''{}''"],
          where L = sampleLibs and W = "\<lambda>c m. True" and s = newSonifierExtension]
        handleTelemetry_total[OF sample_post[of "''junk''"],
          where L = sampleLibs and W = "\<lambda>c m. True" and s = newSonifierExtension]
  by (simp add: sample_post sampleLibs_def)

text \<open>
  Claim C10. Given that the empty input is not valid JSON and that the traces decoder
  accepts it, a POST with an empty body is stored with type traces, not unknown.
\<close>

theorem empty_body_is_traces:
  assumes "\<not> json_Valid L []" and "ptrace_UnmarshalProto L [] = Some tracesReq"
      and "Method r = ''POST''" and "Body r = Inr []"
  shows "telemetryType (fst (snd (handleTelemetry L W r s))) = ''traces'' \<and>
         telemetryType (fst (snd (handleTelemetry L W r s))) \<noteq> ''unknown''"
  using assms(1,2) handleTelemetry_post(2)[OF assms(3,4), of L W s]
  by (simp add: handleTelemetry_detect_def)

theorem empty_body_is_traces_witness:
  "\<not> json_Valid sampleLibs [] \<and> ptrace_UnmarshalProto sampleLibs [] = Some () \<and>
   Method (post []) = ''POST'' \<and> Body (post []) = Inr [] \<and>
   telemetryType (fst (snd (handleTelemetry sampleLibs (\<lambda>c m. True) (post [])
       newSonifierExtension))) = ''traces''"
proof -
  have a: "\<not> json_Valid sampleLibs []" by (simp add: sampleLibs_def)
  have b: "ptrace_UnmarshalProto sampleLibs [] = Some ()" by (simp add: sampleLibs_def)
  from empty_body_is_traces[OF a b sample_post] a b show ?thesis
    by (simp add: sample_post)
qed

text \<open>
  Claim C3. A broadcast writes the message exactly once to every connection that is
  registered when it starts, in the order of the iteration, whether or not earlier
  writes failed. The connections whose write failed are exactly the ones that are
  closed and removed; the others stay registered. The snapshot is untouched, the reply
  of the ingestion handler does not depend on the outcome of any write, and with no
  connection registered nothing happens.
\<close>

theorem broadcast_fault_isolation:
  "attempts (snd (broadcastToWebSockets W e s)) = map (\<lambda>c. (c, e)) (wsConnections s) \<and>
   wsConnections (fst (broadcastToWebSockets W e s)) = filter (\<lambda>c. W c e) (wsConnections s) \<and>
   closed (snd (broadcastToWebSockets W e s)) = filter (\<lambda>c. \<not> W c e) (wsConnections s) \<and>
   telemetryData (fst (broadcastToWebSockets W e s)) = telemetryData s \<and>
   telemetryType (fst (broadcastToWebSockets W e s)) = telemetryType s \<and>
   broadcastToWebSockets W e (s\<lparr>wsConnections := []\<rparr>) = (s\<lparr>wsConnections := []\<rparr>, []) \<and>
   fst (handleTelemetry L W r s) = fst (handleTelemetry L W' r s)"
proof -
  have "fst (handleTelemetry L W r s) = fst (handleTelemetry L W' r s)"
    by (simp add: handleTelemetry_def broadcast_eq Let_def split_beta
          split: option.splits sum.splits)
  then show ?thesis
    by (simp add: broadcast_eq attempts_concat closed_concat)
qed

theorem broadcast_fault_isolation_witness:
  "attempts (snd (broadcastToWebSockets (\<lambda>c m. c \<noteq> 2) ''e''
      (newSonifierExtension\<lparr>wsConnections := [1, 2, 3]\<rparr>))) = [(1, ''e''), (2, ''e''), (3, ''e'')] \<and>
   wsConnections (fst (broadcastToWebSockets (\<lambda>c m. c \<noteq> 2) ''e''
      (newSonifierExtension\<lparr>wsConnections := [1, 2, 3]\<rparr>))) = [1, 3] \<and>
   closed (snd (broadcastToWebSockets (\<lambda>c m. c \<noteq> 2) ''e''
      (newSonifierExtension\<lparr>wsConnections := [1, 2, 3]\<rparr>))) = [2]"
  using broadcast_fault_isolation[of "\<lambda>c m. c \<noteq> 2" "''e''"
          "newSonifierExtension\<lparr>wsConnections := [1, 2, 3]\<rparr>"
          sampleLibs "post []" "\<lambda>c m. True"]
  by simp

text \<open>
  Claim C2. Whatever was served before, after an ingestion that stored a type and a
  non-empty payload every pull, until the next ingestion, replies with exactly that type
  and that payload (the payload itself when it is valid JSON, encoded as a JSON string
  otherwise). What is stored depends on the ingested body alone, not on the previous
  snapshot. Before any ingestion every pull replies 204 No Content. (The stored payload
  is never empty when the body is not; an empty body is the subject of C10.)
\<close>

theorem snapshot_last_write_wins:
  assumes "Method r = ''POST''" and "Body r = Inr body"
      and "telemetryData (snd (serve L W s (history @ [Ingest r]))) \<noteq> []"
  shows "fst (serve L W s (history @ Ingest r # replicate n Pull)) =
           fst (serve L W s history) @ StatusOK #
           replicate n (JSONBody
             \<lparr>Type = telemetryType (snd (serve L W s (history @ [Ingest r]))),
              Payload =
                (if json_Valid L (telemetryData (snd (serve L W s (history @ [Ingest r]))))
                 then telemetryData (snd (serve L W s (history @ [Ingest r])))
                 else json_Marshal_string L
                        (telemetryData (snd (serve L W s (history @ [Ingest r])))))\<rparr>) \<and>
         telemetryType (snd (serve L W s (history @ [Ingest r]))) =
           fst (handleTelemetry_detect L body) \<and>
         telemetryData (snd (serve L W s (history @ [Ingest r]))) =
           (if snd (handleTelemetry_detect L body) \<noteq> [] then snd (handleTelemetry_detect L body)
            else body) \<and>
         fst (serve L W newSonifierExtension (replicate n Pull)) = replicate n StatusNoContent"
proof -
  let ?h = "snd (serve L W s history)"
  have st: "snd (serve L W s (history @ [Ingest r])) = fst (snd (handleTelemetry L W r ?h))"
    by (simp add: serve_append split_beta)
  have split: "history @ Ingest r # replicate n Pull = (history @ [Ingest r]) @ replicate n Pull"
    by simp
  have replies: "fst (serve L W s (history @ Ingest r # replicate n Pull)) =
      fst (serve L W s history) @ StatusOK #
      replicate n (handleGetTelemetryData L (snd (serve L W s (history @ [Ingest r]))))"
    unfolding split serve_append[of L W s "history @ [Ingest r]"] serve_pulls
    by (simp add: serve_append split_beta handleTelemetry_post(1)[OF assms(1,2)])
  have empty: "fst (serve L W newSonifierExtension (replicate n Pull)) = replicate n StatusNoContent"
    by (simp add: serve_pulls handleGetTelemetryData_def newSonifierExtension_def)
  show ?thesis
    using assms(3) replies empty handleTelemetry_post(2,3)[OF assms(1,2), of L W ?h]
    by (simp add: st handleGetTelemetryData_def rawPayload_def)
qed

theorem snapshot_last_write_wins_witness:
  "Method (post ''junk'') = ''POST'' \<and> Body (post ''junk'') = Inr ''junk'' \<and>
   telemetryData (snd (serve sampleLibs (\<lambda>c m. True) newSonifierExtension
      ([Ingest (post ''{}'')] @ [Ingest (post ''junk'')]))) \<noteq> [] \<and>
   fst (serve sampleLibs (\<lambda>c m. True) newSonifierExtension
      ([Ingest (post ''{}'')] @ Ingest (post ''junk'') # replicate 2 Pull)) =
     [StatusOK, StatusOK,
      JSONBody \<lparr>Type = ''unknown'', Payload = ''str:junk''\<rparr>,
      JSONBody \<lparr>Type = ''unknown'', Payload = ''str:junk''\<rparr>]"
proof -
  have d: "telemetryData (snd (serve sampleLibs (\<lambda>c m. True) newSonifierExtension
      ([Ingest (post ''{}'')] @ [Ingest (post ''junk'')]))) = ''junk''"
    by (simp add: split_beta handleTelemetry_post(3)[OF sample_post] sampleLibs_detect)
  have t: "telemetryType (snd (serve sampleLibs (\<lambda>c m. True) newSonifierExtension
      ([Ingest (post ''{}'')] @ [Ingest (post ''junk'')]))) = ''unknown''"
    by (simp add: split_beta handleTelemetry_post(2)[OF sample_post] sampleLibs_detect)
  have first: "fst (serve sampleLibs (\<lambda>c m. True) newSonifierExtension [Ingest (post ''{}'')])
      = [StatusOK]"
    by (simp add: split_beta handleTelemetry_post(1)[OF sample_post])
  have ne: "telemetryData (snd (serve sampleLibs (\<lambda>c m. True) newSonifierExtension
      ([Ingest (post ''{}'')] @ [Ingest (post ''junk'')]))) \<noteq> []"
    by (simp only: d) simp
  have v: "\<not> json_Valid sampleLibs ''junk''"
          "json_Marshal_string sampleLibs ''junk'' = ''str:junk''"
    by (simp_all add: sampleLibs_def)
  from snapshot_last_write_wins[OF sample_post ne, of 2] ne show ?thesis
    by (simp only: d t first v sample_post if_False) (simp add: numeral_2_eq_2)
qed

section \<open>The analyzer\<close>

subsection \<open>The loops as folds over the flattened document\<close>

lemma optList_simps: "optList None = []" "optList (Some ys) = ys"
  by (simp_all add: optList_def)

lemma forEach_optList: "forEach xs f = fold f (optList xs)"
  by (rule ext) (simp add: forEach_def optList_def split: option.splits)

lemma fold_inner:
  "fold (\<lambda>sc. fold f (optList (h sc))) scs acc =
   fold f (concat (map (\<lambda>sc. optList (h sc)) scs)) acc"
  by (induction scs arbitrary: acc) simp_all

lemma fold_nested:
  "fold (\<lambda>r. forEach (g r) (\<lambda>sc. forEach (h sc) f)) rs acc =
   fold f (concat (map (\<lambda>r. concat (map (\<lambda>sc. optList (h sc)) (optList (g r)))) rs)) acc"
  unfolding forEach_optList
  by (induction rs arbitrary: acc) (simp_all add: fold_inner)

lemma fold_spanBody:
  "fold spanBody sps (a, b, ids) =
     (a + length sps, b + length (filter statusCodeIs2 sps), ids @ itemsOf sps)"
  by (induction sps arbitrary: a b ids)
     (simp_all add: spanBody_def itemsOf_def List.map_filter_simps split: option.splits)

lemma fold_logBody:
  "fold logBody ls (a, b) = (a + length ls, b + length (filter isErrorLog ls))"
  by (induction ls arbitrary: a b) (simp_all add: logBody_def)

lemma analyzeTraces_eq:
  "analyzeTraces raw =
     \<lparr>count = length (allSpans raw),
      errorRate = (if length (allSpans raw) > 0
                   then real (length (filter statusCodeIs2 (allSpans raw)))
                        / real (length (allSpans raw))
                   else 0),
      traceIds = itemsOf (allSpans raw)\<rparr>"
proof (cases "resourceSpans raw")
  case None
  then show ?thesis
    by (simp add: analyzeTraces_def allSpans_def optList_simps itemsOf_def List.map_filter_simps)
next
  case (Some rss)
  have "allSpans raw =
     concat (map (\<lambda>rs. concat (map (\<lambda>ss. optList (spans ss)) (optList (scopeSpans rs)))) rss)"
    by (simp add: allSpans_def Some optList_simps)
  then show ?thesis
    by (simp add: analyzeTraces_def Some fold_nested fold_spanBody itemsOf_def
          List.map_filter_simps del: length_greater_0_conv)
qed

lemma analyzeLogs_eq:
  "analyzeLogs raw =
     \<lparr>logErrorRate = (if length (allLogRecords raw) > 0
                      then real (length (filter isErrorLog (allLogRecords raw)))
                           / real (length (allLogRecords raw))
                      else 0),
      totalCount = length (allLogRecords raw)\<rparr>"
proof (cases "resourceLogs raw")
  case None
  then show ?thesis
    by (simp add: analyzeLogs_def allLogRecords_def optList_simps)
next
  case (Some rls)
  have "allLogRecords raw =
     concat (map (\<lambda>rl. concat (map (\<lambda>sl. optList (logRecords sl)) (optList (scopeLogs rl)))) rls)"
    by (simp add: allLogRecords_def Some optList_simps)
  then show ?thesis
    by (simp add: analyzeLogs_def Some fold_nested fold_logBody del: length_greater_0_conv)
qed

lemma ratio_bounds:
  "e \<le> n \<Longrightarrow> 0 \<le> (if n > 0 then real e / real n else 0) \<and>
              (if n > 0 then real e / real n else 0) \<le> 1"
  by simp

lemma fold_gaugePoint:
  "fold gaugePoint pts v = fold max (map (\<lambda>d. d * 100) (List.map_filter asDouble pts)) v"
  by (induction pts arbitrary: v)
     (simp_all add: gaugePoint_def List.map_filter_simps max.commute split: option.splits)

lemma fold_sumPoint:
  "fold sumPoint pts v =
   fold max (map (\<lambda>i. min 100 (real_of_int i / 100)) (List.map_filter asInt pts)) v"
  by (induction pts arbitrary: v)
     (simp_all add: sumPoint_def List.map_filter_simps max.commute split: option.splits)

lemma metricBody_eq:
  "metricBody m (c, mem, d) =
     (fold max (map (\<lambda>v. v * 100) (gaugeValuesOf ''system.cpu.utilization'' [m])) c,
      fold max (map (\<lambda>v. v * 100) (gaugeValuesOf ''system.memory.utilization'' [m])) mem,
      fold max (map (\<lambda>i. min 100 (real_of_int i / 100)) (sumValuesOf ''system.disk.io'' [m])) d)"
  by (simp add: metricBody_def gaugeValuesOf_def sumValuesOf_def forEach_optList
        fold_gaugePoint fold_sumPoint Let_def split: option.splits)

lemma valuesOf_Cons:
  "gaugeValuesOf nm (m # ms) = gaugeValuesOf nm [m] @ gaugeValuesOf nm ms"
  "sumValuesOf nm (m # ms) = sumValuesOf nm [m] @ sumValuesOf nm ms"
  by (simp_all add: gaugeValuesOf_def sumValuesOf_def)

lemma fold_metricBody:
  "fold metricBody ms (c, mem, d) =
     (fold max (map (\<lambda>v. v * 100) (gaugeValuesOf ''system.cpu.utilization'' ms)) c,
      fold max (map (\<lambda>v. v * 100) (gaugeValuesOf ''system.memory.utilization'' ms)) mem,
      fold max (map (\<lambda>i. min 100 (real_of_int i / 100)) (sumValuesOf ''system.disk.io'' ms)) d)"
proof (induction ms arbitrary: c mem d)
  case Nil
  show ?case by (simp add: gaugeValuesOf_def sumValuesOf_def)
next
  case (Cons m ms)
  show ?case
    by (simp only: fold_simps metricBody_eq Cons.IH valuesOf_Cons[of _ m ms] map_append
          fold_append o_apply)
qed

lemma fold_max_Max: "fold max xs (a::real) = Max (set (a # xs))"
  by (simp only: Max.set_eq_fold)

lemma analyzeMetrics_eq:
  "analyzeMetrics raw =
     (let c = Max (set (0 # map (\<lambda>v. v * 100)
                 (gaugeValuesOf ''system.cpu.utilization'' (allMetrics raw))));
          mem = Max (set (0 # map (\<lambda>v. v * 100)
                 (gaugeValuesOf ''system.memory.utilization'' (allMetrics raw))));
          d = Max (set (0 # map (\<lambda>i. min 100 (real_of_int i / 100))
                 (sumValuesOf ''system.disk.io'' (allMetrics raw))))
      in \<lparr>cpu = c, memory = mem, disk = d, critical = (c > 80 \<or> mem > 80 \<or> d > 80)\<rparr>)"
proof (cases "resourceMetrics raw")
  case None
  then show ?thesis
    by (simp add: analyzeMetrics_def allMetrics_def optList_simps gaugeValuesOf_def
          sumValuesOf_def)
next
  case (Some rms)
  have "allMetrics raw =
     concat (map (\<lambda>rm. concat (map (\<lambda>sm. optList (metrics' sm)) (optList (scopeMetrics rm)))) rms)"
    by (simp add: allMetrics_def Some optList_simps)
  then show ?thesis
    by (simp only: analyzeMetrics_def Some option.case fold_nested fold_metricBody Let_def
          prod.case fold_max_Max)
qed



subsection \<open>The analyzer on the concrete inputs\<close>

lemma allSpans_spansPayload: "allSpans (spansPayload sps) = sps"
  by (simp add: allSpans_def spansPayload_def optList_simps)

lemma allLogRecords_logsPayload: "allLogRecords (logsPayload ls) = ls"
  by (simp add: allLogRecords_def logsPayload_def optList_simps)

lemma allMetrics_metricsPayload: "allMetrics (metricsPayload ms) = ms"
  by (simp add: allMetrics_def metricsPayload_def optList_simps)

lemma other_kinds_empty:
  "allMetrics (spansPayload sps) = []" "allLogRecords (spansPayload sps) = []"
  "allSpans (metricsPayload ms) = []" "allLogRecords (metricsPayload ms) = []"
  "allSpans (logsPayload ls) = []" "allMetrics (logsPayload ls) = []"
  by (simp_all add: allMetrics_def allLogRecords_def allSpans_def spansPayload_def
        metricsPayload_def logsPayload_def optList_simps)

lemma statusCodeIs2_samples: "\<not> statusCodeIs2 okSpan" "statusCodeIs2 errorSpan"
  by (simp_all add: statusCodeIs2_def okSpan_def errorSpan_def)

lemma isErrorLog_samples: "isErrorLog errorLog" "\<not> isErrorLog infoLog"
  by (simp_all add: isErrorLog_def errorLog_def infoLog_def)

lemma itemsOf_replicate_ok: "itemsOf (replicate n okSpan) = replicate n okItem"
  by (induction n)
     (simp_all add: itemsOf_def List.map_filter_simps okSpan_def okItem_def statusCodeIs2_def)

lemma valuesOf_samples:
  "gaugeValuesOf nm [] = []"
  "gaugeValuesOf nm (gaugeMetric nm' v # ms) =
     (if nm' = nm then v # gaugeValuesOf nm ms else gaugeValuesOf nm ms)"
  "gaugeValuesOf nm (sumMetric nm' i # ms) = gaugeValuesOf nm ms"
  "sumValuesOf nm [] = []"
  "sumValuesOf nm (sumMetric nm' i # ms) =
     (if nm' = nm then i # sumValuesOf nm ms else sumValuesOf nm ms)"
  "sumValuesOf nm (gaugeMetric nm' v # ms) = sumValuesOf nm ms"
  by (simp_all add: gaugeValuesOf_def sumValuesOf_def gaugeMetric_def sumMetric_def
        optList_simps List.map_filter_simps)

subsection \<open>The claims\<close>

text \<open>
  Claim C7. The count of the traces analysis is the number of spans of the payload and
  the total of the logs analysis is its number of log records. Each error rate is the
  number of error spans (status code 2), respectively error records, divided by that
  total when the total is positive, and 0 when it is 0; so each lies between 0 and 1.
  Three spans of which one is an error give count 3 and rate 1/3.
\<close>

theorem errorRate_ok:
  "count (analyzeTraces raw) = length (allSpans raw) \<and>
   totalCount (analyzeLogs raw) = length (allLogRecords raw) \<and>
   (0 < count (analyzeTraces raw) \<longrightarrow>
      errorRate (analyzeTraces raw) =
        real (length (filter statusCodeIs2 (allSpans raw))) / real (count (analyzeTraces raw))) \<and>
   (count (analyzeTraces raw) = 0 \<longrightarrow> errorRate (analyzeTraces raw) = 0) \<and>
   (0 < totalCount (analyzeLogs raw) \<longrightarrow>
      logErrorRate (analyzeLogs raw) =
        real (length (filter isErrorLog (allLogRecords raw)))
        / real (totalCount (analyzeLogs raw))) \<and>
   (totalCount (analyzeLogs raw) = 0 \<longrightarrow> logErrorRate (analyzeLogs raw) = 0) \<and>
   0 \<le> errorRate (analyzeTraces raw) \<and> errorRate (analyzeTraces raw) \<le> 1 \<and>
   0 \<le> logErrorRate (analyzeLogs raw) \<and> logErrorRate (analyzeLogs raw) \<le> 1 \<and>
   count (analyzeTraces (spansPayload [okSpan, errorSpan, okSpan])) = 3 \<and>
   errorRate (analyzeTraces (spansPayload [okSpan, errorSpan, okSpan])) = 1 / 3"
proof -
  have t: "length (filter statusCodeIs2 (allSpans raw)) \<le> length (allSpans raw)"
    by simp
  have l: "length (filter isErrorLog (allLogRecords raw)) \<le> length (allLogRecords raw)"
    by simp
  have general:
   "count (analyzeTraces raw) = length (allSpans raw) \<and>
    totalCount (analyzeLogs raw) = length (allLogRecords raw) \<and>
    (0 < count (analyzeTraces raw) \<longrightarrow>
      errorRate (analyzeTraces raw) =
        real (length (filter statusCodeIs2 (allSpans raw))) / real (count (analyzeTraces raw))) \<and>
    (count (analyzeTraces raw) = 0 \<longrightarrow> errorRate (analyzeTraces raw) = 0) \<and>
    (0 < totalCount (analyzeLogs raw) \<longrightarrow>
      logErrorRate (analyzeLogs raw) =
        real (length (filter isErrorLog (allLogRecords raw)))
        / real (totalCount (analyzeLogs raw))) \<and>
    (totalCount (analyzeLogs raw) = 0 \<longrightarrow> logErrorRate (analyzeLogs raw) = 0) \<and>
    0 \<le> errorRate (analyzeTraces raw) \<and> errorRate (analyzeTraces raw) \<le> 1 \<and>
    0 \<le> logErrorRate (analyzeLogs raw) \<and> logErrorRate (analyzeLogs raw) \<le> 1"
    using ratio_bounds[OF t] ratio_bounds[OF l]
    by (simp add: analyzeTraces_eq analyzeLogs_eq)
  have scenario:
   "count (analyzeTraces (spansPayload [okSpan, errorSpan, okSpan])) = 3 \<and>
    errorRate (analyzeTraces (spansPayload [okSpan, errorSpan, okSpan])) = 1 / 3"
    by (simp add: analyzeTraces_eq allSpans_spansPayload statusCodeIs2_samples)
  from general scenario show ?thesis by blast
qed

theorem errorRate_ok_witness:
  "0 < count (analyzeTraces (spansPayload [errorSpan, okSpan])) \<and>
   errorRate (analyzeTraces (spansPayload [errorSpan, okSpan])) = 1 / 2 \<and>
   totalCount (analyzeLogs (spansPayload [errorSpan, okSpan])) = 0 \<and>
   logErrorRate (analyzeLogs (spansPayload [errorSpan, okSpan])) = 0 \<and>
   0 < totalCount (analyzeLogs (logsPayload [infoLog, errorLog, infoLog, infoLog])) \<and>
   logErrorRate (analyzeLogs (logsPayload [infoLog, errorLog, infoLog, infoLog])) = 1 / 4 \<and>
   count (analyzeTraces (logsPayload [infoLog, errorLog, infoLog, infoLog])) = 0 \<and>
   errorRate (analyzeTraces (logsPayload [infoLog, errorLog, infoLog, infoLog])) = 0"
  using errorRate_ok[of "spansPayload [errorSpan, okSpan]"]
        errorRate_ok[of "logsPayload [infoLog, errorLog, infoLog, infoLog]"]
  by (simp add: allSpans_spansPayload allLogRecords_logsPayload other_kinds_empty
        statusCodeIs2_samples isErrorLog_samples)




section \<open>The playback queue, the rate controller, the smoother and the quantizer\<close>

subsection \<open>What each method changes\<close>

lemma adjust_rate_cases:
  "currentPlaybackRate (adjustPlaybackRate s) =
     (let d = length (traceQueue s) in
      if d > 200 then 1 else if d > 100 then 2 else if d > 50 then 5
      else if d > 20 then 10 else if d < 5 then basePlaybackRate s * 2 else basePlaybackRate s)"
  by (simp add: adjustPlaybackRate_def Let_def)

lemma adjust_keeps:
  "traceQueue (adjustPlaybackRate s) = traceQueue s"
  "basePlaybackRate (adjustPlaybackRate s) = basePlaybackRate s"
  "currentActivity (adjustPlaybackRate s) = currentActivity s"
  "currentSkyId (adjustPlaybackRate s) = currentSkyId s"
  "targetMetricLevel (adjustPlaybackRate s) = targetMetricLevel s"
  by (simp_all add: adjustPlaybackRate_def Let_def)

lemma update_rate:
  "currentPlaybackRate (fst (updateVisualization s t d)) =
     (if d = ''traces'' \<and> count (traces t) > 0
      then currentPlaybackRate
             (adjustPlaybackRate (s\<lparr>traceQueue := traceQueue s @ traceIds (traces t)\<rparr>))
      else currentPlaybackRate s)"
  by (simp add: updateVisualization_def Let_def updateSkyGradient_def adjust_rate_cases
        split: prod.splits)

lemma update_queue:
  "traceQueue (fst (updateVisualization s t d)) =
     (if d = ''traces'' \<and> count (traces t) > 0
      then traceQueue s @ traceIds (traces t) else traceQueue s)"
  by (simp add: updateVisualization_def Let_def updateSkyGradient_def adjust_keeps
        split: prod.splits)


lemma update_base:
  "basePlaybackRate (fst (updateVisualization s t d)) = basePlaybackRate s"
  by (simp add: updateVisualization_def Let_def updateSkyGradient_def adjust_keeps
        split: prod.splits)

lemma tick_keeps:
  "currentActivity (fst (playNextTrace s)) = currentActivity s"
  "currentPlaybackRate (fst (playNextTrace s)) = currentPlaybackRate s"
  "basePlaybackRate (fst (playNextTrace s)) = basePlaybackRate s"
  "currentSkyId (fst (playNextTrace s)) = currentSkyId s"
  "targetMetricLevel (fst (playNextTrace s)) = targetMetricLevel s"
  by (simp_all add: playNextTrace_def split: list.splits)

lemma run_ticks:
  "run s (replicate n Tick) =
     (s\<lparr>traceQueue := drop n (traceQueue s)\<rparr>,
      concat (map (\<lambda>x. [Raindrop x, SetTimeout (currentPlaybackRate s)])
                  (take n (traceQueue s)))
      @ replicate (n - length (traceQueue s)) (SetTimeout (currentPlaybackRate s)))"
proof (induction n arbitrary: s)
  case 0
  show ?case by simp
next
  case (Suc n)
  show ?case
  proof (cases "traceQueue s")
    case Nil
    then have "playNextTrace s = (s, [SetTimeout (currentPlaybackRate s)])"
      by (simp add: playNextTrace_def)
    with Nil Suc show ?thesis by (simp add: replicate_app_Cons_same)
  next
    case (Cons x rest)
    then have "playNextTrace s =
        (s\<lparr>traceQueue := rest\<rparr>, [Raindrop x, SetTimeout (currentPlaybackRate s)])"
      by (simp add: playNextTrace_def)
    with Cons Suc show ?thesis by simp
  qed
qed



lemma skyTransitions_append:
  "skyTransitions (xs @ ys) = skyTransitions xs @ skyTransitions ys"
  by (induction xs rule: skyTransitions.induct) simp_all

lemma update_sky:
  assumes "skyInv s"
  shows "skyTransitions (snd (updateVisualization s t d)) =
           (if d = ''metrics'' \<and> 0 < metricActivityOf t \<and>
               targetSkyIdOf (detectedLevelOf (metricActivityOf t)) \<noteq> currentSkyId s
            then [(detectedLevelOf (metricActivityOf t),
                   targetSkyIdOf (detectedLevelOf (metricActivityOf t)))]
            else [])"
    and "currentSkyId (fst (updateVisualization s t d)) =
           (if d = ''metrics'' \<and> 0 < metricActivityOf t
            then targetSkyIdOf (detectedLevelOf (metricActivityOf t)) else currentSkyId s)"
    and "skyInv (fst (updateVisualization s t d))"
  using assms
  by (auto simp add: updateVisualization_def Let_def updateSkyGradient_def skyInv_def
        skyTransitions_append adjust_keeps split: prod.splits if_splits)

lemma skyInv_new: "skyInv newTelemetryVisualizer"
  by (simp add: skyInv_def newTelemetryVisualizer_def targetSkyIdOf_def)

lemma skyInv_step: "skyInv s \<Longrightarrow> skyInv (fst (step s i))"
proof (cases i)
  case (Message d p)
  assume "skyInv s"
  with Message show ?thesis
    by (cases p) (simp_all add: onmessage_def update_sky(3))
next
  case Tick
  assume "skyInv s"
  with Tick show ?thesis by (simp add: skyInv_def tick_keeps)
qed

lemma skyInv_run: "skyInv s \<Longrightarrow> skyInv (fst (run s is))"
proof (induction "is" arbitrary: s)
  case Nil
  then show ?case by simp
next
  case (Cons i "is")
  from Cons.IH[OF skyInv_step[OF Cons.prems]] show ?case
    by (simp add: split_beta)
qed

subsection \<open>The visualizer on the concrete inputs\<close>

lemma analyze_replicate_ok:
  "traces (analyzeTelemetry (spansPayload (replicate n okSpan))) =
     \<lparr>count = n, errorRate = 0, traceIds = replicate n okItem\<rparr>"
  by (simp add: analyzeTelemetry_def analyzeTraces_eq allSpans_spansPayload
        itemsOf_replicate_ok statusCodeIs2_samples)

lemma metricActivity_cpu:
  "0 \<le> v \<Longrightarrow> metricActivityOf (analyzeTelemetry
      (metricsPayload [gaugeMetric ''system.cpu.utilization'' v])) = v"
  by (simp add: metricActivityOf_def analyzeTelemetry_def analyzeMetrics_eq
        allMetrics_metricsPayload valuesOf_samples Let_def)

lemma afterTwoTicks_eq:
  "traceQueue afterTwoTicks = replicate 4 okItem \<and>
   currentPlaybackRate afterTwoTicks = 20 \<and> basePlaybackRate afterTwoTicks = 20"
proof -
  let ?s1 = "fst (updateVisualization newTelemetryVisualizer
                (analyzeTelemetry (spansPayload (replicate 6 okSpan))) ''traces'')"
  have q: "traceQueue ?s1 = replicate 6 okItem"
    by (simp add: update_queue analyze_replicate_ok newTelemetryVisualizer_def)
  have r: "currentPlaybackRate ?s1 = 20"
    by (simp add: update_rate analyze_replicate_ok adjust_rate_cases newTelemetryVisualizer_def)
  have b: "basePlaybackRate ?s1 = 20"
    by (simp add: update_base newTelemetryVisualizer_def)
  have "afterTwoTicks = fst (run ?s1 (replicate 2 Tick))"
    by (simp add: afterTwoTicks_def onmessage_def split_beta numeral_2_eq_2)
  then have eq: "afterTwoTicks = ?s1\<lparr>traceQueue := drop 2 (traceQueue ?s1)\<rparr>"
    by (simp add: run_ticks)
  show ?thesis unfolding eq using q r b by simp
qed

lemma queued_simps:
  "length (traceQueue (queued d)) = d" "basePlaybackRate (queued d) = 20"
  "traceQueue (queued d) = replicate d okItem" "currentPlaybackRate (queued d) = 20"
  by (simp_all add: queued_def newTelemetryVisualizer_def)

subsection \<open>The claims\<close>

text \<open>
  Claim C4, as the code has it. With the baseline of 20 ms that the constructor sets,
  the delay that \<open>adjustPlaybackRate\<close> computes from the queue depth is: 40 (twice the
  baseline) for depth 0 to 4, 20 (the baseline) for depth 5 to 20, 10 for depth 21 to
  50, 5 for depth 51 to 100, 2 for depth 101 to 200 and 1 (the floor) for every depth
  above 200. It never increases when the depth grows. When an envelope brings 300 trace
  ids to an empty queue the delay recomputed on that arrival is the floor at once.
\<close>

theorem adjustPlaybackRate_bands:
  assumes "basePlaybackRate s = 20" and "basePlaybackRate s' = 20"
  shows "(length (traceQueue s) \<le> 4 \<longrightarrow> currentPlaybackRate (adjustPlaybackRate s) = 40) \<and>
         (5 \<le> length (traceQueue s) \<and> length (traceQueue s) \<le> 20 \<longrightarrow>
            currentPlaybackRate (adjustPlaybackRate s) = 20) \<and>
         (21 \<le> length (traceQueue s) \<and> length (traceQueue s) \<le> 50 \<longrightarrow>
            currentPlaybackRate (adjustPlaybackRate s) = 10) \<and>
         (51 \<le> length (traceQueue s) \<and> length (traceQueue s) \<le> 100 \<longrightarrow>
            currentPlaybackRate (adjustPlaybackRate s) = 5) \<and>
         (101 \<le> length (traceQueue s) \<and> length (traceQueue s) \<le> 200 \<longrightarrow>
            currentPlaybackRate (adjustPlaybackRate s) = 2) \<and>
         (200 < length (traceQueue s) \<longrightarrow> currentPlaybackRate (adjustPlaybackRate s) = 1) \<and>
         (length (traceQueue s) \<le> length (traceQueue s') \<longrightarrow>
            currentPlaybackRate (adjustPlaybackRate s')
              \<le> currentPlaybackRate (adjustPlaybackRate s)) \<and>
         (traceQueue s = [] \<and> 0 < count (traces t) \<and> length (traceIds (traces t)) = 300 \<longrightarrow>
            currentPlaybackRate (fst (updateVisualization s t ''traces'')) = 1)"
proof -
  have bands: "(length (traceQueue s) \<le> 4 \<longrightarrow> currentPlaybackRate (adjustPlaybackRate s) = 40) \<and>
         (5 \<le> length (traceQueue s) \<and> length (traceQueue s) \<le> 20 \<longrightarrow>
            currentPlaybackRate (adjustPlaybackRate s) = 20) \<and>
         (21 \<le> length (traceQueue s) \<and> length (traceQueue s) \<le> 50 \<longrightarrow>
            currentPlaybackRate (adjustPlaybackRate s) = 10) \<and>
         (51 \<le> length (traceQueue s) \<and> length (traceQueue s) \<le> 100 \<longrightarrow>
            currentPlaybackRate (adjustPlaybackRate s) = 5) \<and>
         (101 \<le> length (traceQueue s) \<and> length (traceQueue s) \<le> 200 \<longrightarrow>
            currentPlaybackRate (adjustPlaybackRate s) = 2) \<and>
         (200 < length (traceQueue s) \<longrightarrow> currentPlaybackRate (adjustPlaybackRate s) = 1)"
    using assms(1) by (simp add: adjust_rate_cases Let_def)
  have mono: "length (traceQueue s) \<le> length (traceQueue s') \<longrightarrow>
            currentPlaybackRate (adjustPlaybackRate s')
              \<le> currentPlaybackRate (adjustPlaybackRate s)"
    using assms by (simp add: adjust_rate_cases Let_def)
  have burst: "traceQueue s = [] \<and> 0 < count (traces t) \<and> length (traceIds (traces t)) = 300 \<longrightarrow>
            currentPlaybackRate (fst (updateVisualization s t ''traces'')) = 1"
    by (simp add: update_rate adjust_rate_cases)
  from bands mono burst show ?thesis by blast
qed

theorem adjustPlaybackRate_bands_witness:
  "basePlaybackRate (queued 0) = 20 \<and> basePlaybackRate (queued 20) = 20 \<and>
   currentPlaybackRate (adjustPlaybackRate (queued 0)) = 40 \<and>
   currentPlaybackRate (adjustPlaybackRate (queued 20)) = 20 \<and>
   currentPlaybackRate (adjustPlaybackRate (queued 50)) = 10 \<and>
   currentPlaybackRate (adjustPlaybackRate (queued 100)) = 5 \<and>
   currentPlaybackRate (adjustPlaybackRate (queued 200)) = 2 \<and>
   currentPlaybackRate (adjustPlaybackRate (queued 201)) = 1 \<and>
   traceQueue (queued 0) = [] \<and>
   length (traceIds (traces (analyzeTelemetry (spansPayload (replicate 300 okSpan))))) = 300 \<and>
   currentPlaybackRate (fst (updateVisualization (queued 0)
      (analyzeTelemetry (spansPayload (replicate 300 okSpan))) ''traces'')) = 1"
  using adjustPlaybackRate_bands[of "queued 0" "queued 20"
          "analyzeTelemetry (spansPayload (replicate 300 okSpan))"]
        adjustPlaybackRate_bands[of "queued 20" "queued 50"]
        adjustPlaybackRate_bands[of "queued 50" "queued 100"]
        adjustPlaybackRate_bands[of "queued 100" "queued 200"]
        adjustPlaybackRate_bands[of "queued 200" "queued 201"]
        adjustPlaybackRate_bands[of "queued 201" "queued 201"]
  by (simp add: queued_simps analyze_replicate_ok)

text \<open>
  Claim C4 as stated fails at the lower end of three of its bands. At depth 20 the
  delay is the baseline, not a faster rate; at depth 50 it is the delay of depth 49 and
  at depth 100 the delay of depth 99.
\<close>

theorem adjustPlaybackRate_bands_counterexample:
  "currentPlaybackRate (adjustPlaybackRate (queued 20)) = basePlaybackRate (queued 20) \<and>
   \<not> currentPlaybackRate (adjustPlaybackRate (queued 20)) < basePlaybackRate (queued 20) \<and>
   currentPlaybackRate (adjustPlaybackRate (queued 50)) =
     currentPlaybackRate (adjustPlaybackRate (queued 49)) \<and>
   currentPlaybackRate (adjustPlaybackRate (queued 100)) =
     currentPlaybackRate (adjustPlaybackRate (queued 99))"
  by (simp add: adjust_rate_cases queued_simps)

text \<open>
  Claim C5, as the code has it. A tick on a non-empty queue removes exactly the oldest
  item and hands it to \<open>createRaindrop\<close>; \<open>n\<close> ticks present the first \<open>n\<close> queued
  items in arrival order and leave the rest. Every tick schedules the next one with the
  stored \<open>currentPlaybackRate\<close> and does not change it. The rate is recomputed from
  the queue length only when an envelope of type traces with at least one span arrives,
  after its items were appended at the end of the queue.
\<close>

theorem playback_fifo:
  "run s (replicate n Tick) =
     (s\<lparr>traceQueue := drop n (traceQueue s)\<rparr>,
      concat (map (\<lambda>x. [Raindrop x, SetTimeout (currentPlaybackRate s)])
                  (take n (traceQueue s)))
      @ replicate (n - length (traceQueue s)) (SetTimeout (currentPlaybackRate s))) \<and>
   playNextTrace (s\<lparr>traceQueue := x # rest\<rparr>) =
     (s\<lparr>traceQueue := rest\<rparr>, [Raindrop x, SetTimeout (currentPlaybackRate s)]) \<and>
   currentPlaybackRate (fst (playNextTrace s)) = currentPlaybackRate s \<and>
   traceQueue (fst (updateVisualization s t d)) =
     (if d = ''traces'' \<and> count (traces t) > 0
      then traceQueue s @ traceIds (traces t) else traceQueue s) \<and>
   currentPlaybackRate (fst (updateVisualization s t d)) =
     (if d = ''traces'' \<and> count (traces t) > 0
      then currentPlaybackRate
             (adjustPlaybackRate (s\<lparr>traceQueue := traceQueue s @ traceIds (traces t)\<rparr>))
      else currentPlaybackRate s)"
proof -
  have "playNextTrace (s\<lparr>traceQueue := x # rest\<rparr>) =
     (s\<lparr>traceQueue := rest\<rparr>, [Raindrop x, SetTimeout (currentPlaybackRate s)])"
    by (simp add: playNextTrace_def)
  then show ?thesis
    by (simp only: run_ticks tick_keeps update_queue update_rate simp_thms)
qed

theorem playback_fifo_witness:
  "run (newTelemetryVisualizer\<lparr>traceQueue :=
          [\<lparr>id' = ''a'', shortId = ''a'', isError = False\<rparr>,
           \<lparr>id' = ''b'', shortId = ''b'', isError = True\<rparr>,
           \<lparr>id' = ''c'', shortId = ''c'', isError = False\<rparr>]\<rparr>) (replicate 2 Tick) =
     (newTelemetryVisualizer\<lparr>traceQueue := [\<lparr>id' = ''c'', shortId = ''c'', isError = False\<rparr>]\<rparr>,
      [Raindrop \<lparr>id' = ''a'', shortId = ''a'', isError = False\<rparr>, SetTimeout 20,
       Raindrop \<lparr>id' = ''b'', shortId = ''b'', isError = True\<rparr>, SetTimeout 20])"
  using playback_fifo[of "newTelemetryVisualizer\<lparr>traceQueue :=
          [\<lparr>id' = ''a'', shortId = ''a'', isError = False\<rparr>,
           \<lparr>id' = ''b'', shortId = ''b'', isError = True\<rparr>,
           \<lparr>id' = ''c'', shortId = ''c'', isError = False\<rparr>]\<rparr>" 2]
  by (simp add: newTelemetryVisualizer_def)

text \<open>
  Claim C5 as stated fails in its last part. After an envelope with six traces and two
  ticks the queue holds four items; the third tick presents one of them and schedules
  the next tick after 20 ms, the rate set when the envelope arrived, although the rate
  computed from the queue length at that tick is 40 ms, before the removal as well as
  after it.
\<close>

theorem tick_delay_counterexample:
  "length (traceQueue afterTwoTicks) = 4 \<and>
   snd (playNextTrace afterTwoTicks) = [Raindrop okItem, SetTimeout 20] \<and>
   currentPlaybackRate (adjustPlaybackRate afterTwoTicks) = 40 \<and>
   currentPlaybackRate (adjustPlaybackRate (fst (playNextTrace afterTwoTicks))) = 40"
  using afterTwoTicks_eq
  by (simp add: adjust_rate_cases playNextTrace_def eval_nat_numeral)




text \<open>
  Claim C9. In every state that a visualizer reaches, an update emits a sky transition
  exactly when it carries a metrics sample (type metrics, positive level) whose bin is
  not the bin of the sky shown, which is the last one emitted; after a sample the sky
  shown is the bin of that sample. So of two successive samples in the same bin the
  second never emits a transition.
\<close>

theorem quantizer_no_flicker:
  "skyTransitions (snd (updateVisualization (fst (run newTelemetryVisualizer history)) t d)) =
     (if d = ''metrics'' \<and> 0 < metricActivityOf t \<and>
         targetSkyIdOf (detectedLevelOf (metricActivityOf t))
           \<noteq> currentSkyId (fst (run newTelemetryVisualizer history))
      then [(detectedLevelOf (metricActivityOf t),
             targetSkyIdOf (detectedLevelOf (metricActivityOf t)))]
      else []) \<and>
   (0 < metricActivityOf t \<longrightarrow>
      currentSkyId (fst (updateVisualization (fst (run newTelemetryVisualizer history))
          t ''metrics''))
        = targetSkyIdOf (detectedLevelOf (metricActivityOf t))) \<and>
   (0 < metricActivityOf t \<and> 0 < metricActivityOf t' \<and>
    detectedLevelOf (metricActivityOf t) = detectedLevelOf (metricActivityOf t') \<longrightarrow>
      skyTransitions (snd (updateVisualization
          (fst (updateVisualization (fst (run newTelemetryVisualizer history)) t ''metrics''))
          t' ''metrics'')) = [])"
proof -
  let ?s = "fst (run newTelemetryVisualizer history)"
  have inv: "skyInv ?s" by (rule skyInv_run[OF skyInv_new])
  have inv': "skyInv (fst (updateVisualization ?s t ''metrics''))"
    by (rule update_sky(3)[OF inv])
  show ?thesis
    by (simp add: update_sky(1,2)[OF inv] update_sky(1)[OF inv'])
qed

theorem quantizer_no_flicker_witness:
  "0 < metricActivityOf (analyzeTelemetry
         (metricsPayload [gaugeMetric ''system.cpu.utilization'' 0.5])) \<and>
   0 < metricActivityOf (analyzeTelemetry
         (metricsPayload [gaugeMetric ''system.cpu.utilization'' 0.7])) \<and>
   detectedLevelOf (metricActivityOf (analyzeTelemetry
         (metricsPayload [gaugeMetric ''system.cpu.utilization'' 0.5]))) =
   detectedLevelOf (metricActivityOf (analyzeTelemetry
         (metricsPayload [gaugeMetric ''system.cpu.utilization'' 0.7]))) \<and>
   skyTransitions (snd (updateVisualization (fst (run newTelemetryVisualizer []))
      (analyzeTelemetry (metricsPayload [gaugeMetric ''system.cpu.utilization'' 0.5]))
      ''metrics'')) = [(0.6, ''sky-high'')] \<and>
   skyTransitions (snd (updateVisualization
      (fst (updateVisualization (fst (run newTelemetryVisualizer []))
         (analyzeTelemetry (metricsPayload [gaugeMetric ''system.cpu.utilization'' 0.5]))
         ''metrics''))
      (analyzeTelemetry (metricsPayload [gaugeMetric ''system.cpu.utilization'' 0.7]))
      ''metrics'')) = []"
  using quantizer_no_flicker[of "[]"
          "analyzeTelemetry (metricsPayload [gaugeMetric ''system.cpu.utilization'' 0.5])"
          "''metrics''"
          "analyzeTelemetry (metricsPayload [gaugeMetric ''system.cpu.utilization'' 0.7])"]
  by (simp add: metricActivity_cpu detectedLevelOf_def targetSkyIdOf_def
        newTelemetryVisualizer_def)

end
